theory Spec2Isabelle
  imports Main
begin

section \<open>Go library operations the gateway calls\<close>

text \<open>
  Go strings are byte sequences; \<^typ>\<open>string\<close> is a list of 8-bit characters.
  The functions of package \<open>strings\<close> used by the gateway are written out.
\<close>

definition strings_HasPrefix :: "string \<Rightarrow> string \<Rightarrow> bool" where
  "strings_HasPrefix s pre = (length pre \<le> length s \<and> take (length pre) s = pre)"

definition strings_TrimPrefix :: "string \<Rightarrow> string \<Rightarrow> string" where
  "strings_TrimPrefix s pre = (if strings_HasPrefix s pre then drop (length pre) s else s)"

fun strings_Join :: "string list \<Rightarrow> string \<Rightarrow> string" where
  "strings_Join [] sep = []"
| "strings_Join [x] sep = x"
| "strings_Join (x # y # ys) sep = x @ sep @ strings_Join (y # ys) sep"

text \<open>
  \<open>strings.SplitN(s, sep, 2)\<close> for a one-byte separator: the text before the first
  separator and the whole remainder after it, or \<open>[s]\<close> when there is no separator.
\<close>

definition strings_SplitN2 :: "string \<Rightarrow> char \<Rightarrow> string list" where
  "strings_SplitN2 s sep =
     (if sep \<in> set s
      then [takeWhile (\<lambda>c. c \<noteq> sep) s, tl (dropWhile (\<lambda>c. c \<noteq> sep) s)]
      else [s])"

text \<open>
  A slice expression \<open>s[n:]\<close> and an index expression \<open>a[i]\<close> panic out of range.
\<close>

datatype panic = NilPointerDereference | IndexOutOfRange | TypeAssertionFailed

definition slice_from :: "'a list \<Rightarrow> nat \<Rightarrow> panic + 'a list" where
  "slice_from s n = (if n \<le> length s then Inr (drop n s) else Inl IndexOutOfRange)"

definition index :: "'a list \<Rightarrow> nat \<Rightarrow> panic + 'a" where
  "index a i = (if i < length a then Inr (a ! i) else Inl IndexOutOfRange)"

subsection \<open>HTTP headers\<close>

text \<open>
  \<open>http.Header\<close> maps a canonical header name to its list of values. \<open>Get\<close>,
  \<open>Set\<close>, \<open>Add\<close> and \<open>Del\<close> canonicalise the name they are given
  (\<open>textproto.CanonicalMIMEHeaderKey\<close>): a name holding a byte that is not a token
  character is left as it is, otherwise the first letter and every letter after a hyphen
  is made upper case and the others lower case.
\<close>

definition validHeaderFieldByte :: "char \<Rightarrow> bool" where
  "validHeaderFieldByte c =
     (let n = (of_char c :: nat) in
        (48 \<le> n \<and> n \<le> 57) \<or> (65 \<le> n \<and> n \<le> 90) \<or> (97 \<le> n \<and> n \<le> 122) \<or>
        n \<in> set [33, 35, 36, 37, 38, 39, 42, 43, 45, 46, 94, 95, 96, 124, 126])"

definition canonicalByte :: "bool \<Rightarrow> char \<Rightarrow> char" where
  "canonicalByte upper c =
     (let n = (of_char c :: nat) in
        if upper \<and> 97 \<le> n \<and> n \<le> 122 then char_of (n - 32)
        else if \<not> upper \<and> 65 \<le> n \<and> n \<le> 90 then char_of (n + 32)
        else c)"

fun canonicalLoop :: "bool \<Rightarrow> string \<Rightarrow> string" where
  "canonicalLoop upper [] = []"
| "canonicalLoop upper (c # cs) =
     (let c' = canonicalByte upper c in c' # canonicalLoop (c' = CHR ''-'') cs)"

definition CanonicalMIMEHeaderKey :: "string \<Rightarrow> string" where
  "CanonicalMIMEHeaderKey s =
     (if list_all validHeaderFieldByte s then canonicalLoop True s else s)"

type_synonym Header = "string \<rightharpoonup> string list"

definition Header_Get :: "Header \<Rightarrow> string \<Rightarrow> string" where
  "Header_Get h key =
     (case h (CanonicalMIMEHeaderKey key) of
        None \<Rightarrow> []
      | Some [] \<Rightarrow> []
      | Some (v # vs) \<Rightarrow> v)"

definition Header_Set :: "Header \<Rightarrow> string \<Rightarrow> string \<Rightarrow> Header" where
  "Header_Set h key v = h(CanonicalMIMEHeaderKey key \<mapsto> [v])"

definition Header_Add :: "Header \<Rightarrow> string \<Rightarrow> string \<Rightarrow> Header" where
  "Header_Add h key v =
     h(CanonicalMIMEHeaderKey key \<mapsto>
         (case h (CanonicalMIMEHeaderKey key) of None \<Rightarrow> [v] | Some vs \<Rightarrow> vs @ [v]))"

definition Header_Del :: "Header \<Rightarrow> string \<Rightarrow> Header" where
  "Header_Del h key = h(CanonicalMIMEHeaderKey key := None)"

subsection \<open>Requests, response writers and the world a handler runs in\<close>

record URL =
  Scheme :: string
  Host :: string
  Path :: string

record Request =
  Method :: string
  url :: URL
  req_Host :: string
  RemoteAddr :: string
  req_Header :: Header

text \<open>
  A response writer: the header map handed out by \<open>w.Header()\<close>, the status line once
  it is written (the first \<open>WriteHeader\<close>, or 200 at the first \<open>Write\<close>), the body,
  and every status code passed to \<open>WriteHeader\<close> so far, in call order.
\<close>

record ResponseWriter =
  w_Header :: Header
  status :: "int option"
  body :: string
  WriteHeader_calls :: "int list"

definition WriteHeader :: "int \<Rightarrow> ResponseWriter \<Rightarrow> ResponseWriter" where
  "WriteHeader code rw =
     rw\<lparr>status := (case status rw of None \<Rightarrow> Some code | Some s \<Rightarrow> Some s),
        WriteHeader_calls := WriteHeader_calls rw @ [code]\<rparr>"

definition Write :: "string \<Rightarrow> ResponseWriter \<Rightarrow> ResponseWriter" where
  "Write b rw =
     rw\<lparr>status := (case status rw of None \<Rightarrow> Some 200 | Some s \<Rightarrow> Some s),
        body := body rw @ b\<rparr>"

text \<open>\<open>http.Error\<close>: a plain-text reply with the given status code.\<close>

definition http_Error_rw :: "string \<Rightarrow> int \<Rightarrow> ResponseWriter \<Rightarrow> ResponseWriter" where
  "http_Error_rw msg code rw =
     Write (msg @ [CHR 0x0A])
       (WriteHeader code
         (rw\<lparr>w_Header :=
               Header_Set
                 (Header_Set (Header_Del (w_Header rw) ''Content-Length'')
                    ''Content-Type'' ''text/plain; charset=utf-8'')
                 ''X-Content-Type-Options'' ''nosniff''\<rparr>))"

definition StatusOK :: int where "StatusOK = 200"
definition StatusUnauthorized :: int where "StatusUnauthorized = 401"
definition StatusMethodNotAllowed :: int where "StatusMethodNotAllowed = 405"
definition StatusTooManyRequests :: int where "StatusTooManyRequests = 429"

subsection \<open>The logger (pkg/logger)\<close>

datatype error = CorruptInputError nat | ParseError string | Errorf string error

datatype any = Str string | Num int | Duration int | Err error | Addr URL

type_synonym LogLevel = int

definition DEBUG :: LogLevel where "DEBUG = 0"
definition INFO :: LogLevel where "INFO = 1"
definition WARN :: LogLevel where "WARN = 2"
definition ERROR :: LogLevel where "ERROR = 3"
definition FATAL :: LogLevel where "FATAL = 4"

record Logger =
  level :: LogLevel

text \<open>
  Every logger prints to standard output, modelled as the list of lines printed so
  far: the level, the format string and its arguments.
\<close>

type_synonym LogLine = "LogLevel \<times> string \<times> any list"

definition Logger_log :: "LogLevel \<Rightarrow> string \<Rightarrow> any list \<Rightarrow> LogLine list \<Rightarrow> LogLine list" where
  "Logger_log lv format v out = out @ [(lv, format, v)]"

definition Logger_Debug :: "Logger \<Rightarrow> string \<Rightarrow> any list \<Rightarrow> LogLine list \<Rightarrow> LogLine list" where
  "Logger_Debug l format v out = (if level l \<le> DEBUG then Logger_log DEBUG format v out else out)"

definition Logger_Info :: "Logger \<Rightarrow> string \<Rightarrow> any list \<Rightarrow> LogLine list \<Rightarrow> LogLine list" where
  "Logger_Info l format v out = (if level l \<le> INFO then Logger_log INFO format v out else out)"

definition Logger_Warn :: "Logger \<Rightarrow> string \<Rightarrow> any list \<Rightarrow> LogLine list \<Rightarrow> LogLine list" where
  "Logger_Warn l format v out = (if level l \<le> WARN then Logger_log WARN format v out else out)"

definition Logger_Error :: "Logger \<Rightarrow> string \<Rightarrow> any list \<Rightarrow> LogLine list \<Rightarrow> LogLine list" where
  "Logger_Error l format v out = (if level l \<le> ERROR then Logger_log ERROR format v out else out)"

subsection \<open>Handlers\<close>

text \<open>
  A handler runs on the request \<open>r\<close> and the response writer \<open>w\<close> it is given (both
  are shared and mutable, so both are part of the state), reads the clock, prints log
  lines and, for the rate limiter, updates the client map of a limiter; \<open>limiters\<close>
  is the store of those maps, by the address of the limiter. A call returns a value
  and the state it leaves, or panics in some state.
\<close>

record World =
  req :: Request
  resp :: ResponseWriter
  clock :: int
  logged :: "LogLine list"
  limiters :: "nat \<Rightarrow> (string \<rightharpoonup> int list)"

datatype 'a outcome = Returned 'a World | Panicked panic World

type_synonym Handler = "World \<Rightarrow> unit outcome"

type_synonym Middleware = "Handler \<Rightarrow> Handler"

definition http_Error :: "string \<Rightarrow> int \<Rightarrow> World \<Rightarrow> World" where
  "http_Error msg code wd = wd\<lparr>resp := http_Error_rw msg code (resp wd)\<rparr>"

section \<open>pkg/middleware\<close>

subsection \<open>Chain and Apply\<close>

text \<open>
  \<open>Chain\<close> runs \<open>i\<close> from \<open>len(middlewares) - 1\<close> down to \<open>0\<close>; the loop counter
  of the model is \<open>i + 1\<close>.
\<close>

fun Chain_loop :: "Middleware list \<Rightarrow> nat \<Rightarrow> Handler \<Rightarrow> Handler" where
  "Chain_loop middlewares 0 nxt = nxt"
| "Chain_loop middlewares (Suc i) nxt = Chain_loop middlewares i ((middlewares ! i) nxt)"

definition Chain :: "Middleware list \<Rightarrow> Middleware" where
  "Chain middlewares nxt = Chain_loop middlewares (length middlewares) nxt"

definition Apply :: "Handler \<Rightarrow> Middleware \<Rightarrow> Handler" where
  "Apply h m = m h"

subsection \<open>Logging\<close>

text \<open>
  The logging step hands the wrapped handler a \<open>responseWriter\<close> that remembers the
  code of the latest \<open>WriteHeader\<close> call made through it, 200 when there is none.
\<close>

definition LoggingMiddleware :: "Logger \<Rightarrow> Middleware" where
  "LoggingMiddleware log nxt wd =
     (let start = clock wd;
          before = length (WriteHeader_calls (resp wd))
      in case nxt wd of
           Panicked p wd' \<Rightarrow> Panicked p wd'
         | Returned u wd' \<Rightarrow>
             (let written = drop before (WriteHeader_calls (resp wd'));
                  statusCode = (if written = [] then StatusOK else last written);
                  duration = clock wd' - start
              in Returned ()
                   (wd'\<lparr>logged :=
                        Logger_Info log ''%s %s %s %d %s''
                          [Str (RemoteAddr (req wd')), Str (Method (req wd')),
                           Str (Path (url (req wd'))), Num statusCode, Duration duration]
                          (logged wd')\<rparr>)))"

subsection \<open>Rate limiting\<close>

text \<open>
  Times are clock readings in nanoseconds and \<open>window\<close> is a duration in
  nanoseconds. \<open>clients\<close> is the address of the limiter's map in the store; a key
  that is not in the map reads as the empty sequence.
\<close>

record RateLimiter =
  limit :: int
  window :: int
  clients :: nat
  rl_log :: Logger

definition NewRateLimiter :: "int \<Rightarrow> int \<Rightarrow> Logger \<Rightarrow> nat \<Rightarrow> RateLimiter" where
  "NewRateLimiter lim win log addr = \<lparr>limit = lim, window = win, clients = addr, rl_log = log\<rparr>"

definition client_requests :: "(string \<rightharpoonup> int list) \<Rightarrow> string \<Rightarrow> int list" where
  "client_requests m clientIP = (case m clientIP of None \<Rightarrow> [] | Some ts \<Rightarrow> ts)"

definition RateLimitMiddleware :: "RateLimiter \<Rightarrow> Middleware" where
  "RateLimitMiddleware limiter nxt wd =
     (let clientIP = RemoteAddr (req wd);
          now = clock wd;
          requests = filter (\<lambda>t. now - t \<le> window limiter)
                       (client_requests (limiters wd (clients limiter)) clientIP)
      in if limit limiter \<le> int (length requests) then
           Returned ()
             (http_Error ''Rate limit exceeded'' StatusTooManyRequests
                (wd\<lparr>logged := Logger_Warn (rl_log limiter) ''Rate limit exceeded for %s''
                                 [Str clientIP] (logged wd)\<rparr>))
         else
           nxt (wd\<lparr>limiters := (limiters wd)
                     (clients limiter :=
                        (limiters wd (clients limiter))(clientIP \<mapsto> requests @ [now]))\<rparr>))"

subsection \<open>Authentication\<close>

text \<open>
  The decoder \<open>base64.StdEncoding.DecodeString\<close>, the URL parser, the reverse proxy
  and the formatting of a time are library code; the gateway is given them.
\<close>

record Lib =
  DecodeString :: "string \<Rightarrow> error + string"
  url_Parse :: "string \<Rightarrow> error + URL"
  NewSingleHostReverseProxy :: "URL \<Rightarrow> Handler"
  Format_RFC3339 :: "int \<Rightarrow> string"

type_synonym Authenticator = "World \<Rightarrow> bool outcome"

record BasicAuthenticator =
  username :: string
  password :: string
  ba_log :: Logger

definition NewBasicAuthenticator :: "string \<Rightarrow> string \<Rightarrow> Logger \<Rightarrow> BasicAuthenticator" where
  "NewBasicAuthenticator u p log = \<lparr>username = u, password = p, ba_log = log\<rparr>"

definition BasicAuthenticator_Authenticate :: "Lib \<Rightarrow> BasicAuthenticator \<Rightarrow> Authenticator" where
  "BasicAuthenticator_Authenticate lib a wd =
     (let auth = Header_Get (req_Header (req wd)) ''Authorization'' in
      if auth = [] then Returned False wd
      else if \<not> strings_HasPrefix auth ''Basic '' then Returned False wd
      else
        case slice_from auth (length ''Basic '') of
          Inl p \<Rightarrow> Panicked p wd
        | Inr enc \<Rightarrow>
            (case DecodeString lib enc of
               Inl err \<Rightarrow>
                 Returned False
                   (wd\<lparr>logged := Logger_Error (ba_log a) ''Failed to decode basic auth: %v''
                                    [Err err] (logged wd)\<rparr>)
             | Inr payload \<Rightarrow>
                 (let pair = strings_SplitN2 payload (CHR '':'') in
                  if length pair \<noteq> 2 then Returned False wd
                  else
                    case index pair 0 of
                      Inl p \<Rightarrow> Panicked p wd
                    | Inr user \<Rightarrow>
                        if user \<noteq> username a then Returned False wd
                        else
                          (case index pair 1 of
                             Inl p \<Rightarrow> Panicked p wd
                           | Inr pass \<Rightarrow> Returned (pass = password a) wd))))"

record APIKeyAuthenticator =
  header :: string
  key :: string
  ak_log :: Logger

definition NewAPIKeyAuthenticator :: "string \<Rightarrow> string \<Rightarrow> Logger \<Rightarrow> APIKeyAuthenticator" where
  "NewAPIKeyAuthenticator h k log = \<lparr>header = h, key = k, ak_log = log\<rparr>"

definition APIKeyAuthenticator_Authenticate :: "APIKeyAuthenticator \<Rightarrow> Authenticator" where
  "APIKeyAuthenticator_Authenticate a wd =
     Returned (Header_Get (req_Header (req wd)) (header a) = key a) wd"

definition AuthMiddleware :: "Authenticator \<Rightarrow> Logger \<Rightarrow> Middleware" where
  "AuthMiddleware authenticator log nxt wd =
     (case authenticator wd of
        Panicked p wd' \<Rightarrow> Panicked p wd'
      | Returned ok wd' \<Rightarrow>
          if \<not> ok then
            Returned ()
              (http_Error ''Unauthorized'' StatusUnauthorized
                 (wd'\<lparr>logged := Logger_Warn log ''Authentication failed for %s''
                                   [Str (RemoteAddr (req wd'))] (logged wd')\<rparr>))
          else nxt wd')"

section \<open>pkg/plugin\<close>

text \<open>
  A plugin is an interface value: its name and its \<open>ProcessRequest\<close> method, which
  is given the next handler. The registry never calls \<open>Initialize\<close>; that method is
  modelled for the CORS plugin below.
\<close>

record Plugin =
  Name :: string
  ProcessRequest :: "Handler \<Rightarrow> Handler"

record Manager =
  plugins :: "string \<rightharpoonup> Plugin"
  m_log :: Logger

definition NewManager :: "Logger \<Rightarrow> Manager" where
  "NewManager log = \<lparr>plugins = Map.empty, m_log = log\<rparr>"

definition RegisterPlugin :: "Manager \<Rightarrow> Plugin \<Rightarrow> LogLine list \<Rightarrow> Manager \<times> LogLine list" where
  "RegisterPlugin m plugin out =
     (m\<lparr>plugins := (plugins m)(Name plugin \<mapsto> plugin)\<rparr>,
      Logger_Info (m_log m) ''Registered plugin: %s'' [Str (Name plugin)] out)"

definition GetPlugin :: "Manager \<Rightarrow> string \<Rightarrow> Plugin option" where
  "GetPlugin m name = plugins m name"

text \<open>
  The adapter looks the plugin up when the request arrives: \<open>m\<close> is the registry
  at that moment.
\<close>

definition Manager_Middleware :: "Manager \<Rightarrow> string \<Rightarrow> Middleware" where
  "Manager_Middleware m pluginName nxt wd =
     (case GetPlugin m pluginName of
        None \<Rightarrow>
          nxt (wd\<lparr>logged := Logger_Error (m_log m) ''Plugin not found: %s''
                              [Str pluginName] (logged wd)\<rparr>)
      | Some plugin \<Rightarrow> ProcessRequest plugin nxt wd)"

subsection \<open>The CORS plugin\<close>

text \<open>
  \<open>NewCORSPlugin\<close> leaves the logger unset (a nil pointer) until \<open>Initialize\<close>
  stores one; calling a method of the nil logger panics.
\<close>

record CORSPlugin =
  allowedOrigins :: "string list"
  allowedMethods :: "string list"
  allowedHeaders :: "string list"
  cors_log :: "Logger option"

definition NewCORSPlugin :: CORSPlugin where
  "NewCORSPlugin =
     \<lparr>allowedOrigins = [''*''],
      allowedMethods = [''GET'', ''POST'', ''PUT'', ''DELETE'', ''OPTIONS''],
      allowedHeaders = [''Content-Type'', ''Authorization''],
      cors_log = None\<rparr>"

definition CORSPlugin_Name :: "CORSPlugin \<Rightarrow> string" where
  "CORSPlugin_Name p = ''cors''"

text \<open>Configuration values of type \<open>interface{}\<close>, as decoded from JSON.\<close>

datatype iface = VNil | VBool bool | VNumber int | VString string | VList "iface list"

text \<open>
  The loop \<open>for i, x := range xs { out[i] = x.(string) }\<close> into a slice made with
  \<open>len(xs)\<close> empty strings: the slice after the loop, and the panic that stopped it
  when some element is not a string.
\<close>

fun assert_strings :: "iface list \<Rightarrow> string list \<times> panic option" where
  "assert_strings [] = ([], None)"
| "assert_strings (VString s # xs) = (case assert_strings xs of (ys, p) \<Rightarrow> (s # ys, p))"
| "assert_strings (x # xs) = (replicate (Suc (length xs)) [], Some TypeAssertionFailed)"

definition CORSPlugin_Initialize ::
  "CORSPlugin \<Rightarrow> (string \<rightharpoonup> iface) \<Rightarrow> Logger \<Rightarrow> CORSPlugin \<times> (panic + error option)" where
  "CORSPlugin_Initialize p config log =
     (let p0 = p\<lparr>cors_log := Some log\<rparr>;
          (p1, e1) = (case config ''allowedOrigins'' of
                        Some (VList origins) \<Rightarrow>
                          (case assert_strings origins of
                             (ys, e) \<Rightarrow> (p0\<lparr>allowedOrigins := ys\<rparr>, e))
                      | _ \<Rightarrow> (p0, None))
      in case e1 of Some pn \<Rightarrow> (p1, Inl pn) | None \<Rightarrow>
     (let (p2, e2) = (case config ''allowedMethods'' of
                        Some (VList methods) \<Rightarrow>
                          (case assert_strings methods of
                             (ys, e) \<Rightarrow> (p1\<lparr>allowedMethods := ys\<rparr>, e))
                      | _ \<Rightarrow> (p1, None))
      in case e2 of Some pn \<Rightarrow> (p2, Inl pn) | None \<Rightarrow>
     (let (p3, e3) = (case config ''allowedHeaders'' of
                        Some (VList headers) \<Rightarrow>
                          (case assert_strings headers of
                             (ys, e) \<Rightarrow> (p2\<lparr>allowedHeaders := ys\<rparr>, e))
                      | _ \<Rightarrow> (p2, None))
      in case e3 of Some pn \<Rightarrow> (p3, Inl pn) | None \<Rightarrow> (p3, Inr None))))"

fun origin_allowed :: "string list \<Rightarrow> string \<Rightarrow> bool" where
  "origin_allowed [] origin = False"
| "origin_allowed (allowedOrigin # rest) origin =
     (if allowedOrigin = ''*'' \<or> allowedOrigin = origin then True
      else origin_allowed rest origin)"

definition CORSPlugin_ProcessRequest :: "CORSPlugin \<Rightarrow> Handler \<Rightarrow> Handler" where
  "CORSPlugin_ProcessRequest p nxt wd =
     (let origin = Header_Get (req_Header (req wd)) ''Origin'' in
      if origin = [] then nxt wd
      else if \<not> origin_allowed (allowedOrigins p) origin then
        (case cors_log p of
           None \<Rightarrow> Panicked NilPointerDereference wd
         | Some log \<Rightarrow>
             nxt (wd\<lparr>logged := Logger_Warn log ''CORS: Origin not allowed: %s''
                                 [Str origin] (logged wd)\<rparr>))
      else
        (let h1 = Header_Set (w_Header (resp wd)) ''Access-Control-Allow-Origin'' origin;
             h2 = Header_Set h1 ''Access-Control-Allow-Methods''
                    (strings_Join (allowedMethods p) '', '');
             h3 = Header_Set h2 ''Access-Control-Allow-Headers''
                    (strings_Join (allowedHeaders p) '', '');
             wd1 = wd\<lparr>resp := (resp wd)\<lparr>w_Header := h3\<rparr>\<rparr>
         in if Method (req wd) = ''OPTIONS'' then
              Returned () (wd1\<lparr>resp := WriteHeader StatusOK (resp wd1)\<rparr>)
            else nxt wd1))"

definition CORSPlugin_Plugin :: "CORSPlugin \<Rightarrow> Plugin" where
  "CORSPlugin_Plugin p = \<lparr>Name = CORSPlugin_Name p, ProcessRequest = CORSPlugin_ProcessRequest p\<rparr>"

subsection \<open>The example plugin\<close>

record ExamplePlugin =
  message :: string
  ex_log :: "Logger option"

definition NewExamplePlugin :: ExamplePlugin where
  "NewExamplePlugin = \<lparr>message = ''Hello from example plugin!'', ex_log = None\<rparr>"

definition ExamplePlugin_Name :: "ExamplePlugin \<Rightarrow> string" where
  "ExamplePlugin_Name p = ''example''"

definition ExamplePlugin_ProcessRequest :: "Lib \<Rightarrow> ExamplePlugin \<Rightarrow> Handler \<Rightarrow> Handler" where
  "ExamplePlugin_ProcessRequest lib p nxt wd =
     (let h1 = Header_Set (w_Header (resp wd)) ''X-Example-Plugin'' (message p);
          h2 = Header_Set h1 ''X-Example-Timestamp'' (Format_RFC3339 lib (clock wd));
          wd1 = wd\<lparr>resp := (resp wd)\<lparr>w_Header := h2\<rparr>\<rparr>
      in case ex_log p of
           None \<Rightarrow> Panicked NilPointerDereference wd1
         | Some log \<Rightarrow>
             nxt (wd1\<lparr>logged := Logger_Debug log ''Example plugin processing request: %s %s''
                                  [Str (Method (req wd1)), Str (Path (url (req wd1)))]
                                  (logged wd1)\<rparr>))"

definition ExamplePlugin_Plugin :: "Lib \<Rightarrow> ExamplePlugin \<Rightarrow> Plugin" where
  "ExamplePlugin_Plugin lib p =
     \<lparr>Name = ExamplePlugin_Name p, ProcessRequest = ExamplePlugin_ProcessRequest lib p\<rparr>"

section \<open>pkg/gateway\<close>

subsection \<open>Configuration\<close>

text \<open>
  Modelled from the spec: the configuration types of pkg/config (\<open>config.go\<close> is not
  among the sources). Per route: path, target base URL, allowed methods, ordered
  middleware names, optional rate limit \<open>{limit, windowSeconds}\<close>, optional auth
  \<open>{type, config map}\<close>; the field names and types are those \<open>initialize\<close> uses.
  A key that is not in the auth config map reads as the empty string.
\<close>

record RateLimitConfig =
  Limit :: int
  Window :: int

record AuthConfig =
  Type :: string
  Config :: "string \<rightharpoonup> string"

record RouteConfig =
  rc_Path :: string
  rc_Target :: string
  rc_Methods :: "string list"
  rc_Middlewares :: "string list"
  RateLimit :: "RateLimitConfig option"
  Auth :: "AuthConfig option"

record Config =
  Routes :: "RouteConfig list"

definition config_value :: "(string \<rightharpoonup> string) \<Rightarrow> string \<Rightarrow> string" where
  "config_value m k = (case m k of None \<Rightarrow> [] | Some v \<Rightarrow> v)"

subsection \<open>Gateway and routes\<close>

record Route =
  Path_of :: string
  Target :: URL
  Methods :: "string \<Rightarrow> bool"
  Middlewares :: "Middleware list"
  Handler_of :: Handler

record Gateway =
  config :: Config
  g_log :: Logger
  pluginManager :: Manager
  routes :: "string \<rightharpoonup> Route"

text \<open>
  What start-up leaves outside the gateway value: the lines logged so far and the
  next free address for a rate limiter's client map (each \<open>NewRateLimiter\<close> makes a
  new, empty map).
\<close>

record Startup =
  out :: "LogLine list"
  next_addr :: nat

text \<open>
  \<open>time.Duration(window) * time.Second\<close> is a 64-bit signed product and wraps around.
\<close>

definition wrap64 :: "int \<Rightarrow> int" where
  "wrap64 x = (x + 2 ^ 63) mod 2 ^ 64 - 2 ^ 63"

definition Second :: int where "Second = 1000000000"

text \<open>
  The handler of a route before any middleware: the method check, the rewriting of
  the request and the call of the reverse proxy.
\<close>

definition route_handler :: "Logger \<Rightarrow> (string \<Rightarrow> bool) \<Rightarrow> string \<Rightarrow> URL \<Rightarrow> Handler \<Rightarrow> Handler" where
  "route_handler log methods path targetURL proxy wd =
     (if \<not> methods (Method (req wd)) then
        Returned ()
          (http_Error ''Method not allowed'' StatusMethodNotAllowed
             (wd\<lparr>logged := Logger_Warn log ''Method not allowed: %s %s''
                              [Str (Method (req wd)), Str (Path (url (req wd)))] (logged wd)\<rparr>))
      else
        (let r1 = (req wd)\<lparr>url := (url (req wd))\<lparr>Host := Host targetURL,
                                                   Scheme := Scheme targetURL\<rparr>,
                            req_Host := Host targetURL\<rparr>;
             r2 = (if strings_HasPrefix (Path (url r1)) path then
                     (let trimmed = strings_TrimPrefix (Path (url r1)) path in
                      r1\<lparr>url := (url r1)\<lparr>Path := (if trimmed = [] then ''/'' else trimmed)\<rparr>\<rparr>)
                   else r1)
         in proxy (wd\<lparr>req := r2,
                       logged := Logger_Debug log ''Proxying request: %s %s -> %s''
                                   [Str (Method r2), Str (Path (url r2)), Addr targetURL]
                                   (logged wd)\<rparr>)))"

text \<open>One pass of the loop over the middleware names of a route.\<close>

definition add_middleware ::
  "Lib \<Rightarrow> Gateway \<Rightarrow> RouteConfig \<Rightarrow> string \<Rightarrow> Handler \<times> Startup \<Rightarrow> Handler \<times> Startup" where
  "add_middleware lib g routeConfig middlewareName hs =
     (case hs of (handler, st) \<Rightarrow>
      case GetPlugin (pluginManager g) middlewareName of
        Some plugin \<Rightarrow> (Manager_Middleware (pluginManager g) middlewareName handler, st)
      | None \<Rightarrow>
          if middlewareName = ''logging'' then (LoggingMiddleware (g_log g) handler, st)
          else if middlewareName = ''ratelimit'' then
            (case RateLimit routeConfig of
               None \<Rightarrow> (handler, st)
             | Some rl \<Rightarrow>
                 (let limiter = NewRateLimiter (Limit rl) (wrap64 (Window rl * Second))
                                  (g_log g) (next_addr st)
                  in (RateLimitMiddleware limiter handler, st\<lparr>next_addr := Suc (next_addr st)\<rparr>)))
          else if middlewareName = ''auth'' then
            (case Auth routeConfig of
               None \<Rightarrow> (handler, st)
             | Some a \<Rightarrow>
                 if Type a = ''basic'' then
                   (AuthMiddleware
                      (BasicAuthenticator_Authenticate lib
                         (NewBasicAuthenticator (config_value (Config a) ''username'')
                            (config_value (Config a) ''password'') (g_log g)))
                      (g_log g) handler, st)
                 else if Type a = ''apikey'' then
                   (AuthMiddleware
                      (APIKeyAuthenticator_Authenticate
                         (NewAPIKeyAuthenticator (config_value (Config a) ''header'')
                            (config_value (Config a) ''key'') (g_log g)))
                      (g_log g) handler, st)
                 else
                   (handler,
                    st\<lparr>out := Logger_Warn (g_log g) ''Unsupported auth type: %s''
                                  [Str (Type a)] (out st)\<rparr>))
          else
            (handler,
             st\<lparr>out := Logger_Warn (g_log g) ''Unknown middleware: %s''
                           [Str middlewareName] (out st)\<rparr>))"

fun add_middlewares ::
  "Lib \<Rightarrow> Gateway \<Rightarrow> RouteConfig \<Rightarrow> string list \<Rightarrow> Handler \<times> Startup \<Rightarrow> Handler \<times> Startup" where
  "add_middlewares lib g routeConfig [] hs = hs"
| "add_middlewares lib g routeConfig (middlewareName # names) hs =
     add_middlewares lib g routeConfig names (add_middleware lib g routeConfig middlewareName hs)"

text \<open>
  The loop of \<open>initialize\<close> over the configured routes. It stops at the first target
  that does not parse; the gateway keeps the routes added before.
\<close>

fun initialize_routes ::
  "Lib \<Rightarrow> RouteConfig list \<Rightarrow> Gateway \<times> Startup \<Rightarrow> error option \<times> Gateway \<times> Startup" where
  "initialize_routes lib [] gs = (None, gs)"
| "initialize_routes lib (routeConfig # rest) gs =
     (case gs of (g, st) \<Rightarrow>
      case url_Parse lib (rc_Target routeConfig) of
        Inl err \<Rightarrow> (Some (Errorf ''failed to parse target URL: %w'' err), g, st)
      | Inr targetURL \<Rightarrow>
          (let methods = (\<lambda>m. m \<in> set (rc_Methods routeConfig));
               proxy = NewSingleHostReverseProxy lib targetURL;
               handler0 = route_handler (g_log g) methods (rc_Path routeConfig) targetURL proxy;
               (handler, st1) = add_middlewares lib g routeConfig (rc_Middlewares routeConfig)
                                  (handler0, st);
               route = \<lparr>Path_of = rc_Path routeConfig, Target = targetURL, Methods = methods,
                        Middlewares = [], Handler_of = handler\<rparr>;
               g1 = g\<lparr>routes := (routes g)(Path_of route \<mapsto> route)\<rparr>;
               st2 = st1\<lparr>out := Logger_Info (g_log g) ''Added route: %s -> %s''
                                   [Str (Path_of route), Addr (Target route)] (out st1)\<rparr>
           in initialize_routes lib rest (g1, st2)))"

definition initialize :: "Lib \<Rightarrow> Gateway \<Rightarrow> Startup \<Rightarrow> error option \<times> Gateway \<times> Startup" where
  "initialize lib g st = initialize_routes lib (Routes (config g)) (g, st)"

text \<open>
  \<open>New\<close>, given what \<open>config.LoadConfig\<close> returned for the path: it registers the
  two plugins, neither of them initialized, and initializes the gateway.
\<close>

definition New :: "Lib \<Rightarrow> error + Config \<Rightarrow> LogLevel \<Rightarrow> Startup \<Rightarrow> (error + Gateway) \<times> Startup" where
  "New lib loaded logLevel st =
     (let log = \<lparr>level = logLevel\<rparr> in
      case loaded of
        Inl err \<Rightarrow> (Inl (Errorf ''failed to load configuration: %w'' err), st)
      | Inr cfg \<Rightarrow>
          (let pm0 = NewManager log;
               (pm1, out1) = RegisterPlugin pm0 (CORSPlugin_Plugin NewCORSPlugin) (out st);
               (pm2, out2) = RegisterPlugin pm1 (ExamplePlugin_Plugin lib NewExamplePlugin) out1;
               g = \<lparr>config = cfg, g_log = log, pluginManager = pm2, routes = Map.empty\<rparr>
           in case initialize lib g (st\<lparr>out := out2\<rparr>) of
                (Some err, g', st') \<Rightarrow> (Inl err, st')
              | (None, g', st') \<Rightarrow> (Inr g', st')))"

section \<open>Library stand-ins for running the model\<close>

text \<open>
  The theorems below hold for every \<^typ>\<open>Lib\<close>. To run the model on concrete requests
  the library is instantiated: the standard base64 decoder (alphabet \<open>A-Z a-z 0-9 + /\<close>,
  padding \<open>=\<close>, line breaks skipped, four characters to three bytes), a URL parser for
  targets of the form \<open>scheme://host/path\<close> that rejects control characters as
  \<open>url.Parse\<close> does, and the backend of \<open>TestGatewayRouting\<close>, which answers
  200 with \<open>Hello from\<close> and the path.
\<close>

definition decodeMap :: "char \<Rightarrow> nat option" where
  "decodeMap c =
     (let n = (of_char c :: nat) in
        if 65 \<le> n \<and> n \<le> 90 then Some (n - 65)
        else if 97 \<le> n \<and> n \<le> 122 then Some (n - 71)
        else if 48 \<le> n \<and> n \<le> 57 then Some (n + 4)
        else if n = 43 then Some 62
        else if n = 47 then Some 63
        else None)"

definition is_newline :: "char \<Rightarrow> bool" where
  "is_newline c = (c = CHR 0x0A \<or> c = CHR 0x0D)"

fun skip_newlines :: "nat \<Rightarrow> string \<Rightarrow> nat \<times> string" where
  "skip_newlines si [] = (si, [])"
| "skip_newlines si (c # cs) = (if is_newline c then skip_newlines (Suc si) cs else (si, c # cs))"

definition quantum_bytes :: "nat list \<Rightarrow> string" where
  "quantum_bytes dbuf =
     (let d = dbuf @ replicate (4 - length dbuf) 0;
          val = d ! 0 * 262144 + d ! 1 * 4096 + d ! 2 * 64 + d ! 3
      in take (length dbuf - 1) [char_of (val div 65536), char_of (val div 256), char_of val])"

definition after_padding :: "nat \<Rightarrow> string \<Rightarrow> nat list \<Rightarrow> string \<Rightarrow> error + string" where
  "after_padding si rest dbuf acc =
     (case skip_newlines si rest of
        (si', rest') \<Rightarrow>
          if rest' \<noteq> [] then Inl (CorruptInputError si') else Inr (acc @ quantum_bytes dbuf))"

fun decode_loop :: "nat \<Rightarrow> nat \<Rightarrow> nat list \<Rightarrow> string \<Rightarrow> string \<Rightarrow> error + string" where
  "decode_loop n si dbuf [] acc =
     (if dbuf = [] then Inr acc else Inl (CorruptInputError (si - length dbuf)))"
| "decode_loop n si dbuf (c # cs) acc =
     (case decodeMap c of
        Some v \<Rightarrow>
          if length dbuf = 3 then decode_loop n (Suc si) [] cs (acc @ quantum_bytes (dbuf @ [v]))
          else decode_loop n (Suc si) (dbuf @ [v]) cs acc
      | None \<Rightarrow>
          if is_newline c then decode_loop n (Suc si) dbuf cs acc
          else if c \<noteq> CHR ''='' then Inl (CorruptInputError si)
          else if length dbuf < 2 then Inl (CorruptInputError si)
          else if length dbuf = 2 then
            (case skip_newlines (Suc si) cs of
               (si1, []) \<Rightarrow> Inl (CorruptInputError n)
             | (si1, c1 # rest) \<Rightarrow>
                 if c1 \<noteq> CHR ''='' then Inl (CorruptInputError (si1 - 1))
                 else after_padding (Suc si1) rest dbuf acc)
          else after_padding (Suc si) cs dbuf acc)"

definition StdEncoding_DecodeString :: "string \<Rightarrow> error + string" where
  "StdEncoding_DecodeString s = decode_loop (length s) 0 [] s []"

definition is_control :: "char \<Rightarrow> bool" where
  "is_control c = ((of_char c :: nat) < 32 \<or> (of_char c :: nat) = 127)"

fun split_scheme :: "string \<Rightarrow> string \<Rightarrow> string \<times> string" where
  "split_scheme acc [] = ([], acc)"
| "split_scheme acc (c # cs) =
     (if take 3 (c # cs) = ''://'' then (acc, drop 3 (c # cs)) else split_scheme (acc @ [c]) cs)"

definition simple_url_Parse :: "string \<Rightarrow> error + URL" where
  "simple_url_Parse s =
     (if list_ex is_control s then Inl (ParseError ''net/url: invalid control character in URL'')
      else case split_scheme [] s of
             (sch, rest) \<Rightarrow>
               Inr \<lparr>Scheme = sch,
                    Host = takeWhile (\<lambda>c. c \<noteq> CHR ''/'') rest,
                    Path = dropWhile (\<lambda>c. c \<noteq> CHR ''/'') rest\<rparr>)"

definition test_backend :: "URL \<Rightarrow> Handler" where
  "test_backend target wd =
     Returned ()
       (wd\<lparr>resp := Write (''Hello from '' @ Path (url (req wd)))
                       (WriteHeader StatusOK (resp wd))\<rparr>)"

definition test_lib :: Lib where
  "test_lib =
     \<lparr>DecodeString = StdEncoding_DecodeString,
      url_Parse = simple_url_Parse,
      NewSingleHostReverseProxy = test_backend,
      Format_RFC3339 = (\<lambda>t. ''1970-01-01T00:00:00Z'')\<rparr>"

text \<open>A request as \<open>httptest.NewRequest\<close> makes it, and a fresh recorder.\<close>

definition NewRequest :: "string \<Rightarrow> string \<Rightarrow> string \<Rightarrow> Request" where
  "NewRequest method path remote =
     \<lparr>Method = method,
      url = \<lparr>Scheme = ''http'', Host = ''example.com'', Path = path\<rparr>,
      req_Host = ''example.com'',
      RemoteAddr = remote,
      req_Header = Map.empty\<rparr>"

definition NewRecorder :: ResponseWriter where
  "NewRecorder = \<lparr>w_Header = Map.empty, status = None, body = [], WriteHeader_calls = []\<rparr>"

definition start_world :: "Request \<Rightarrow> int \<Rightarrow> World" where
  "start_world r t =
     \<lparr>req = r, resp = NewRecorder, clock = t, logged = [], limiters = (\<lambda>a. Map.empty)\<rparr>"

text \<open>The state a call leaves, whether it returned or panicked.\<close>

fun world_of :: "'a outcome \<Rightarrow> World" where
  "world_of (Returned x wd) = wd"
| "world_of (Panicked p wd) = wd"

text \<open>
  The next request on the same server: a new request and response writer at a later
  time, with the log and the limiters as the previous request left them.
\<close>

definition next_request :: "Request \<Rightarrow> int \<Rightarrow> World \<Rightarrow> World" where
  "next_request r t wd = wd\<lparr>req := r, resp := NewRecorder, clock := t\<rparr>"

text \<open>The final handler of the middleware tests: it answers 200.\<close>

definition ok_handler :: Handler where
  "ok_handler wd = Returned () (wd\<lparr>resp := WriteHeader StatusOK (resp wd)\<rparr>)"

text \<open>
  A handler serving a sequence of requests, one after the other: the status of each
  response and the state after the last.
\<close>

fun serve_all :: "Handler \<Rightarrow> (Request \<times> int) list \<Rightarrow> World \<Rightarrow> int option list \<times> World" where
  "serve_all h [] wd = ([], wd)"
| "serve_all h (rt # rest) wd =
     (let wd1 = world_of (h (next_request (fst rt) (snd rt) wd));
          res = serve_all h rest wd1
      in (status (resp wd1) # fst res, snd res))"

text \<open>Every stored timestamp sequence of the limiter is at most \<open>limit\<close> long.\<close>

definition limiter_bounded :: "RateLimiter \<Rightarrow> World \<Rightarrow> bool" where
  "limiter_bounded lim wd =
     (\<forall>c ts. limiters wd (clients lim) c = Some ts \<longrightarrow> int (length ts) \<le> limit lim)"

text \<open>A handler that leaves the client map of the limiter as it found it.\<close>

definition keeps_limiter :: "RateLimiter \<Rightarrow> Handler \<Rightarrow> bool" where
  "keeps_limiter lim h =
     (\<forall>wd. limiters (world_of (h wd)) (clients lim) = limiters wd (clients lim))"

section \<open>The rate limiter\<close>

lemma RateLimitMiddleware_reject:
  assumes "limit lim \<le> int (length (filter (\<lambda>t. \<not> t < clock wd - window lim)
             (client_requests (limiters wd (clients lim)) (RemoteAddr (req wd)))))"
  shows "RateLimitMiddleware lim nxt wd =
           Returned () (http_Error ''Rate limit exceeded'' StatusTooManyRequests
              (wd\<lparr>logged := Logger_Warn (rl_log lim) ''Rate limit exceeded for %s''
                               [Str (RemoteAddr (req wd))] (logged wd)\<rparr>))"
proof -
  have "(\<lambda>t. \<not> t < clock wd - window lim) = (\<lambda>t. clock wd - t \<le> window lim)"
    by (rule ext) arith
  with assms show ?thesis by (simp add: RateLimitMiddleware_def Let_def)
qed

lemma RateLimitMiddleware_admit:
  assumes "int (length (filter (\<lambda>t. \<not> t < clock wd - window lim)
             (client_requests (limiters wd (clients lim)) (RemoteAddr (req wd))))) < limit lim"
  shows "RateLimitMiddleware lim nxt wd =
           nxt (wd\<lparr>limiters := (limiters wd)
                  (clients lim := (limiters wd (clients lim))
                     (RemoteAddr (req wd) \<mapsto>
                        filter (\<lambda>t. \<not> t < clock wd - window lim)
                          (client_requests (limiters wd (clients lim)) (RemoteAddr (req wd)))
                        @ [clock wd]))\<rparr>)"
proof -
  have "(\<lambda>t. \<not> t < clock wd - window lim) = (\<lambda>t. clock wd - t \<le> window lim)"
    by (rule ext) arith
  with assms show ?thesis by (simp add: RateLimitMiddleware_def Let_def)
qed

lemma http_Error_limiters: "limiters (http_Error msg code wd) = limiters wd"
  by (simp add: http_Error_def)

lemma http_Error_status:
  "status (resp wd) = None \<Longrightarrow> status (resp (http_Error msg code wd)) = Some code"
  by (simp add: http_Error_def http_Error_rw_def Write_def WriteHeader_def)

lemma RateLimitMiddleware_bounded:
  assumes inv: "limiter_bounded lim wd" and keep: "keeps_limiter lim nxt"
  shows "limiter_bounded lim (world_of (RateLimitMiddleware lim nxt wd))"
proof (cases "limit lim \<le> int (length (filter (\<lambda>t. \<not> t < clock wd - window lim)
             (client_requests (limiters wd (clients lim)) (RemoteAddr (req wd)))))")
  case True
  then show ?thesis using inv
    by (simp add: RateLimitMiddleware_reject limiter_bounded_def http_Error_limiters)
next
  case False
  then have lt: "int (length (filter (\<lambda>t. \<not> t < clock wd - window lim)
             (client_requests (limiters wd (clients lim)) (RemoteAddr (req wd))))) < limit lim"
    by simp
  show ?thesis
    unfolding RateLimitMiddleware_admit [OF lt] limiter_bounded_def
    using keep [unfolded keeps_limiter_def] inv [unfolded limiter_bounded_def] lt
    by (auto split: if_splits)
qed

lemma serve_all_bounded:
  assumes keep: "keeps_limiter lim nxt"
  shows "limiter_bounded lim wd \<Longrightarrow>
         limiter_bounded lim (snd (serve_all (RateLimitMiddleware lim nxt) calls wd))"
proof (induction calls arbitrary: wd)
  case Nil
  then show ?case by simp
next
  case (Cons rt rest)
  have "limiter_bounded lim (next_request (fst rt) (snd rt) wd)"
    using Cons.prems by (simp add: limiter_bounded_def next_request_def)
  then have "limiter_bounded lim
      (world_of (RateLimitMiddleware lim nxt (next_request (fst rt) (snd rt) wd)))"
    using keep by (rule RateLimitMiddleware_bounded)
  then show ?case using Cons.IH by (simp add: Let_def)
qed

text \<open>
  C10. Starting from an empty client map, after the rate-limit step has served any finite
  sequence of requests (at any times, from any clients, around a handler that does not
  itself touch the limiter's map), every timestamp sequence stored in the map is at
  most \<open>limit\<close> long.
\<close>

theorem limiter_sequences_bounded:
  assumes "keeps_limiter lim nxt" and "limiters wd0 (clients lim) = Map.empty"
  shows "limiter_bounded lim (snd (serve_all (RateLimitMiddleware lim nxt) calls wd0))"
proof -
  have "limiter_bounded lim wd0" using assms(2) by (simp add: limiter_bounded_def)
  with assms(1) show ?thesis by (rule serve_all_bounded)
qed

lemma serve_step:
  "serve_all h ((r, t) # rest) wd =
     (status (resp (world_of (h (next_request r t wd)))) #
        fst (serve_all h rest (world_of (h (next_request r t wd)))),
      snd (serve_all h rest (world_of (h (next_request r t wd)))))"
  by (simp add: Let_def)

lemma limited_step_admit:
  assumes "client_requests (limiters wd (clients lim)) c = ts"
    and "filter (\<lambda>x. \<not> x < t - window lim) ts = ts'"
    and "int (length ts') < limit lim"
    and "wd' = world_of (RateLimitMiddleware lim ok_handler (next_request (NewRequest m p c) t wd))"
  shows "status (resp wd') = Some 200 \<and> client_requests (limiters wd' (clients lim)) c = ts' @ [t]"
proof -
  let ?w = "next_request (NewRequest m p c) t wd"
  have "int (length (filter (\<lambda>x. \<not> x < clock ?w - window lim)
             (client_requests (limiters ?w (clients lim)) (RemoteAddr (req ?w))))) < limit lim"
    using assms(1-3) by (simp add: next_request_def NewRequest_def)
  from RateLimitMiddleware_admit [OF this, of ok_handler] assms(1,2,4)
  show ?thesis
    by (simp add: ok_handler_def next_request_def NewRequest_def NewRecorder_def
        WriteHeader_def StatusOK_def client_requests_def)
qed

lemma limited_step_reject:
  assumes "client_requests (limiters wd (clients lim)) c = ts"
    and "filter (\<lambda>x. \<not> x < t - window lim) ts = ts'"
    and "limit lim \<le> int (length ts')"
    and "wd' = world_of (RateLimitMiddleware lim ok_handler (next_request (NewRequest m p c) t wd))"
  shows "status (resp wd') = Some 429 \<and> client_requests (limiters wd' (clients lim)) c = ts"
proof -
  let ?w = "next_request (NewRequest m p c) t wd"
  have "limit lim \<le> int (length (filter (\<lambda>x. \<not> x < clock ?w - window lim)
             (client_requests (limiters ?w (clients lim)) (RemoteAddr (req ?w)))))"
    using assms(1-3) by (simp add: next_request_def NewRequest_def)
  from RateLimitMiddleware_reject [OF this, of ok_handler] assms(1,2,4)
  show ?thesis
    by (simp add: http_Error_def http_Error_rw_def Write_def next_request_def NewRequest_def
        NewRecorder_def WriteHeader_def StatusTooManyRequests_def)
qed

lemma five_then_reject_then_admit:
  assumes lim: "limit lim = 5" "window lim = Second"
    and fresh: "limiters wd (clients lim) c = None"
    and ord: "t1 \<le> t2" "t2 \<le> t3" "t3 \<le> t4" "t4 \<le> t5" "t5 \<le> t6"
    and within: "t6 \<le> t1 + Second"
    and later: "t1 + Second < t7"
  shows "fst (serve_all (RateLimitMiddleware lim ok_handler)
               (map (\<lambda>t. (NewRequest m p c, t)) [t1, t2, t3, t4, t5, t6, t7]) wd)
         = [Some 200, Some 200, Some 200, Some 200, Some 200, Some 429, Some 200]"
proof -
  let ?h = "RateLimitMiddleware lim ok_handler"
  let ?r = "NewRequest m p c"
  define w1 where "w1 = world_of (?h (next_request ?r t1 wd))"
  define w2 where "w2 = world_of (?h (next_request ?r t2 w1))"
  define w3 where "w3 = world_of (?h (next_request ?r t3 w2))"
  define w4 where "w4 = world_of (?h (next_request ?r t4 w3))"
  define w5 where "w5 = world_of (?h (next_request ?r t5 w4))"
  define w6 where "w6 = world_of (?h (next_request ?r t6 w5))"
  define w7 where "w7 = world_of (?h (next_request ?r t7 w6))"
  have c0: "client_requests (limiters wd (clients lim)) c = []"
    using fresh by (simp add: client_requests_def)
  have s1: "status (resp w1) = Some 200 \<and> client_requests (limiters w1 (clients lim)) c = [] @ [t1]"
    by (rule limited_step_admit [OF c0 _ _ w1_def]) (simp_all add: lim)
  have s2: "status (resp w2) = Some 200 \<and> client_requests (limiters w2 (clients lim)) c = [t1] @ [t2]"
    by (rule limited_step_admit [OF _ _ _ w2_def, of "[t1]"]) (use s1 lim ord within in simp_all)
  have s3: "status (resp w3) = Some 200 \<and> client_requests (limiters w3 (clients lim)) c = [t1, t2] @ [t3]"
    by (rule limited_step_admit [OF _ _ _ w3_def, of "[t1, t2]"]) (use s2 lim ord within in simp_all)
  have s4: "status (resp w4) = Some 200 \<and> client_requests (limiters w4 (clients lim)) c = [t1, t2, t3] @ [t4]"
    by (rule limited_step_admit [OF _ _ _ w4_def, of "[t1, t2, t3]"]) (use s3 lim ord within in simp_all)
  have s5: "status (resp w5) = Some 200 \<and> client_requests (limiters w5 (clients lim)) c = [t1, t2, t3, t4] @ [t5]"
    by (rule limited_step_admit [OF _ _ _ w5_def, of "[t1, t2, t3, t4]"]) (use s4 lim ord within in simp_all)
  have s6: "status (resp w6) = Some 429 \<and> client_requests (limiters w6 (clients lim)) c = [t1, t2, t3, t4, t5]"
    by (rule limited_step_reject [OF _ _ _ w6_def, of _ "[t1, t2, t3, t4, t5]"])
       (use s5 lim ord within in simp_all)
  have "int (length (filter (\<lambda>x. \<not> x < t7 - window lim) [t1, t2, t3, t4, t5])) < limit lim"
    using lim later by simp
  from limited_step_admit [OF _ refl this w7_def] s6
  have s7: "status (resp w7) = Some 200" by simp
  show ?thesis
    using s1 s2 s3 s4 s5 s6 s7
    by (simp add: serve_step w1_def [symmetric] w2_def [symmetric] w3_def [symmetric]
        w4_def [symmetric] w5_def [symmetric] w6_def [symmetric] w7_def [symmetric])
qed

theorem limiter_sequences_bounded_witness:
  "keeps_limiter (NewRateLimiter 2 Second \<lparr>level = INFO\<rparr> 0) ok_handler \<and>
   limiters (start_world (NewRequest ''GET'' ''/foo'' ''192.168.1.1:12345'') 0)
     (clients (NewRateLimiter 2 Second \<lparr>level = INFO\<rparr> 0)) = Map.empty \<and>
   limiter_bounded (NewRateLimiter 2 Second \<lparr>level = INFO\<rparr> 0)
     (snd (serve_all (RateLimitMiddleware (NewRateLimiter 2 Second \<lparr>level = INFO\<rparr> 0) ok_handler)
            [(NewRequest ''GET'' ''/foo'' ''192.168.1.1:12345'', 10),
             (NewRequest ''GET'' ''/foo'' ''192.168.1.1:12345'', 20),
             (NewRequest ''GET'' ''/foo'' ''192.168.1.1:12345'', 30)]
            (start_world (NewRequest ''GET'' ''/foo'' ''192.168.1.1:12345'') 0)))"
proof -
  have k: "keeps_limiter (NewRateLimiter 2 Second \<lparr>level = INFO\<rparr> 0) ok_handler"
    by (simp add: keeps_limiter_def ok_handler_def)
  have e: "limiters (start_world (NewRequest ''GET'' ''/foo'' ''192.168.1.1:12345'') 0)
     (clients (NewRateLimiter 2 Second \<lparr>level = INFO\<rparr> 0)) = Map.empty"
    by (simp add: start_world_def)
  from limiter_sequences_bounded [OF k e] k e show ?thesis by blast
qed

end
